theory Spec2Isabelle
  imports
    Main
    "HOL-Library.Word"
    "HOL-Library.AList"
    "HOL-Library.Char_ord"
    "HOL-Library.List_Lexorder"
begin

section \<open>The listener service of pkg/services/listeners/listeners.go\<close>

text \<open>
  The service is a facade over three in-memory repositories: raw-socket (TCP)
  listeners, HTTP-family listeners, and HTTP servers. The listener and server
  packages, their factories and the repositories live outside
  \<^verbatim>\<open>listeners.go\<close>; the factories and constants are parameters of the model
  (the record \<open>env\<close>), and the repositories are modelled from section 4.2 of the
  specification.
\<close>

subsection \<open>Errors and panics\<close>

text \<open>
  Every error the service builds is an \<^verbatim>\<open>fmt.Errorf\<close> value, that is, a message.
  \<open>NilDereference\<close> is Go's run-time panic on \<^verbatim>\<open>*p\<close> with \<open>p = nil\<close>: it is not
  an error value, it unwinds through the caller.
\<close>

datatype error = Error string | NilDereference

text \<open>\<^verbatim>\<open>err.Error()\<close>, what the verb \<^verbatim>\<open>%s\<close> prints for an error value.\<close>

fun Error_str :: "error \<Rightarrow> string" where
  "Error_str (Error m) = m"
| "Error_str NilDereference = ''runtime error: invalid memory address or nil pointer dereference''"

text \<open>
  \<^verbatim>\<open>fmt.Errorf(prefix + "%s", err)\<close> on the error path of a call. A panic of the
  callee never reaches the \<^verbatim>\<open>if err != nil\<close> test and is passed on as it is.
\<close>

fun Errorf :: "string \<Rightarrow> error \<Rightarrow> error" where
  "Errorf pre (Error m) = Error (pre @ m)"
| "Errorf pre NilDereference = NilDereference"

subsection \<open>Identifiers and text formatting\<close>

text \<open>
  \<^verbatim>\<open>uuid.UUID\<close> is an array of 16 bytes; \<^verbatim>\<open>%s\<close> prints its canonical form, the
  bytes in lower-case hexadecimal, grouped 4-2-2-2-6.
\<close>

type_synonym uuid = "8 word list"

definition hex_digit :: "nat \<Rightarrow> char" where
  "hex_digit n = ''0123456789abcdef'' ! (n mod 16)"

definition hex_byte :: "8 word \<Rightarrow> string" where
  "hex_byte b = [hex_digit (unat b div 16), hex_digit (unat b mod 16)]"

definition hex_bytes :: "8 word list \<Rightarrow> string" where
  "hex_bytes bs = concat (map hex_byte bs)"

definition uuid_String :: "uuid \<Rightarrow> string" where
  "uuid_String u =
     hex_bytes (take 4 u) @ ''-'' @ hex_bytes (take 2 (drop 4 u)) @ ''-'' @
     hex_bytes (take 2 (drop 6 u)) @ ''-'' @ hex_bytes (take 2 (drop 8 u)) @ ''-'' @
     hex_bytes (take 6 (drop 10 u))"

text \<open>The verb \<^verbatim>\<open>%d\<close> on an \<^verbatim>\<open>int\<close>: decimal digits, with a leading minus sign.\<close>

fun digits :: "nat \<Rightarrow> string" where
  "digits n =
     (if n < 10 then [hex_digit n] else digits (n div 10) @ [hex_digit (n mod 10)])"

definition itoa :: "int \<Rightarrow> string" where
  "itoa i = (if i < 0 then ''-'' @ digits (nat (- i)) else digits (nat i))"

text \<open>
  \<^verbatim>\<open>strings.ToLower\<close>. On ASCII bytes it adds \<^verbatim>\<open>'a' - 'A'\<close> to the letters
  \<^verbatim>\<open>A\<close> to \<^verbatim>\<open>Z\<close>. Bytes from 128 on (the UTF-8 encodings of other runes) are
  kept here; Go maps those runes through the Unicode tables, and the only runes
  beyond ASCII that it sends into ASCII are U+0130 (to \<^verbatim>\<open>i\<close>) and U+212A (to
  \<^verbatim>\<open>k\<close>), letters that occur in no protocol name, so the comparison with the
  protocol names below comes out the same.
\<close>

definition lower_char :: "char \<Rightarrow> char" where
  "lower_char c =
     (let n = (of_char c :: nat) in if 65 \<le> n \<and> n \<le> 90 then char_of (n + 32) else c)"

definition ToLower :: "string \<Rightarrow> string" where
  "ToLower s = map lower_char s"

text \<open>
  The specification's side of the comparison: the protocol names, and what it
  means that a string is one of them "in any letter-casing". \<open>casing_of s name\<close>
  holds when \<open>s\<close> is \<open>name\<close> with any of its small letters written as the capital
  letter. These definitions follow the specification, not the code; the code
  normalises with \<open>ToLower\<close> and compares with the names as they are.
\<close>

definition upper_char :: "char \<Rightarrow> char" where
  "upper_char c =
     (let n = (of_char c :: nat) in if 97 \<le> n \<and> n \<le> 122 then char_of (n - 32) else c)"

definition same_letter :: "char \<Rightarrow> char \<Rightarrow> bool" where
  "same_letter c d = (c = d \<or> c = upper_char d)"

definition casing_of :: "string \<Rightarrow> string \<Rightarrow> bool" where
  "casing_of s name = list_all2 same_letter s name"

definition no_upper :: "string \<Rightarrow> bool" where
  "no_upper s = list_all (\<lambda>d. \<not> (65 \<le> (of_char d :: nat) \<and> (of_char d :: nat) \<le> 90)) s"

definition HTTP_family :: "string list" where
  "HTTP_family = [''http'', ''https'', ''h2c'', ''http2'', ''http3'']"

definition selects_HTTP :: "string \<Rightarrow> bool" where
  "selects_HTTP p = list_ex (casing_of p) HTTP_family"

definition selects_TCP :: "string \<Rightarrow> bool" where
  "selects_TCP p = casing_of p ''tcp''"

subsection \<open>Listeners, servers and the collaborators outside the service\<close>

type_synonym options = "string \<rightharpoonup> string"

text \<open>
  Modelled from the spec: the listener types of \<^verbatim>\<open>pkg/listeners/tcp\<close> and
  \<^verbatim>\<open>pkg/listeners/http\<close> are missing. Section 3 gives a listener an identifier,
  a name, an option map and, for the HTTP family only, the reference to its
  server. The server type itself is the parameter \<open>'srv\<close>.
\<close>

record tcp_listener =
  tcp_ID :: uuid
  tcp_Name :: string
  tcp_Options :: options

record 'srv http_listener =
  http_ID :: uuid
  http_Name :: string
  http_Options :: options
  http_Server :: 'srv

text \<open>The interface \<^verbatim>\<open>listeners.Listener\<close>: a value of one of the two types.\<close>

datatype 'srv listener = HTTPListener "'srv http_listener" | TCPListener tcp_listener

text \<open>
  What \<^verbatim>\<open>listeners.go\<close> uses and does not define: the protocol tags
  \<^verbatim>\<open>listeners.HTTP\<close> and \<^verbatim>\<open>listeners.TCP\<close>, the two \<^verbatim>\<open>FromString\<close> functions, the
  factories, the default option maps and the server's \<^verbatim>\<open>Stop\<close>. A map that the
  service ranges over is given by its entries, in the order the \<^verbatim>\<open>range\<close>
  statement visits them (Go leaves that order open). The tags are Go
  \<^verbatim>\<open>int\<close>s; the service compares and prints them and never computes with
  them. \<open>loopvar_per_iteration\<close> is the language version the package is built
  with: from Go 1.22 on a \<^verbatim>\<open>for\<close> loop has a fresh variable in every
  iteration, before that one variable for the whole loop.
\<close>

record 'srv env =
  loopvar_per_iteration :: bool
  listeners_HTTP :: int
  listeners_TCP :: int
  listeners_FromString :: "string \<Rightarrow> int"
  servers_FromString :: "string \<Rightarrow> int"
  httpServer_New :: "options \<Rightarrow> error + 'srv"
  httpServer_GetDefaultOptions :: "int \<Rightarrow> (string \<times> string) list"
  server_ID :: "'srv \<Rightarrow> uuid"
  server_Stop :: "'srv \<Rightarrow> error + unit"
  http_NewHTTPListener :: "'srv \<Rightarrow> options \<Rightarrow> error + 'srv http_listener"
  http_DefaultOptions :: "(string \<times> string) list"
  tcp_NewTCPListener :: "options \<Rightarrow> error + tcp_listener"
  tcp_DefaultOptions :: "(string \<times> string) list"

text \<open>
  Modelled from the spec: the methods \<^verbatim>\<open>Protocol\<close> and \<^verbatim>\<open>Server\<close> of the two
  listener types are missing (\<^verbatim>\<open>ID\<close> and \<^verbatim>\<open>Name\<close> are the fields of the
  records above). A listener carries the tag of its own protocol; a raw-socket listener never carries a server reference
  (its \<^verbatim>\<open>Server()\<close> is \<^verbatim>\<open>nil\<close>), an HTTP-family listener always carries one.
\<close>

fun Protocol :: "'srv env \<Rightarrow> 'srv listener \<Rightarrow> int" where
  "Protocol env (HTTPListener l) = listeners_HTTP env"
| "Protocol env (TCPListener l) = listeners_TCP env"

fun Server :: "'srv listener \<Rightarrow> 'srv option" where
  "Server (HTTPListener l) = Some (http_Server l)"
| "Server (TCPListener l) = None"

text \<open>The dereference \<^verbatim>\<open>*p\<close> of a pointer that may be \<^verbatim>\<open>nil\<close>.\<close>

fun deref :: "'a option \<Rightarrow> error + 'a" where
  "deref None = Inl NilDereference"
| "deref (Some x) = Inr x"

subsection \<open>Repositories\<close>

text \<open>
  Modelled from the spec: the in-memory repositories (\<^verbatim>\<open>tcp/memory\<close>,
  \<^verbatim>\<open>http/memory\<close>, \<^verbatim>\<open>servers/http/memory\<close>) are missing. Section 4.2: a
  keyed store; \<open>Add\<close> fails with DuplicateError when the identifier is already
  stored; the lookups by identifier and by name, \<open>RemoveByID\<close> and
  \<open>UpdateOptions\<close> fail with NotFoundError when the target is absent. A store
  is the list of its records; the first argument reads a record's key.
\<close>

type_synonym 'a repository = "'a list"

definition DuplicateError :: error where
  "DuplicateError = Error ''DuplicateError''"

definition NotFoundError :: error where
  "NotFoundError = Error ''NotFoundError''"

definition Add :: "('a \<Rightarrow> uuid) \<Rightarrow> 'a repository \<Rightarrow> 'a \<Rightarrow> error + 'a repository" where
  "Add key repo x =
     (if list_ex (\<lambda>y. key y = key x) repo then Inl DuplicateError
      else Inr (repo @ [x]))"

definition ListenerByID :: "('a \<Rightarrow> uuid) \<Rightarrow> 'a repository \<Rightarrow> uuid \<Rightarrow> error + 'a" where
  "ListenerByID key repo i =
     (case find (\<lambda>y. key y = i) repo of
        None \<Rightarrow> Inl NotFoundError
      | Some y \<Rightarrow> Inr y)"

definition ListenerByName_repo :: "('a \<Rightarrow> string) \<Rightarrow> 'a repository \<Rightarrow> string \<Rightarrow> error + 'a" where
  "ListenerByName_repo nm repo n =
     (case find (\<lambda>y. nm y = n) repo of
        None \<Rightarrow> Inl NotFoundError
      | Some y \<Rightarrow> Inr y)"

definition RemoveByID :: "('a \<Rightarrow> uuid) \<Rightarrow> 'a repository \<Rightarrow> uuid \<Rightarrow> error + 'a repository" where
  "RemoveByID key repo i =
     (if list_ex (\<lambda>y. key y = i) repo then Inr (filter (\<lambda>y. key y \<noteq> i) repo)
      else Inl NotFoundError)"

subsection \<open>The service\<close>

record 'srv ListenerService =
  tcpRepo :: "tcp_listener repository"
  httpRepo :: "'srv http_listener repository"
  httpServerRepo :: "'srv repository"

text \<open>
  Modelled from the spec: the factories that issue the identifiers are
  missing. Section 3 gives every listener a process-unique identifier, so no
  identifier is held by both listener repositories (within one repository
  \<open>Add\<close> refuses a second record with the same identifier).
\<close>

definition ids_disjoint :: "'srv ListenerService \<Rightarrow> bool" where
  "ids_disjoint ls =
     list_all (\<lambda>h. list_all (\<lambda>t. http_ID h \<noteq> tcp_ID t) (tcpRepo ls)) (httpRepo ls)"

definition NewListenerService :: "'srv ListenerService" where
  "NewListenerService = \<lparr>tcpRepo = [], httpRepo = [], httpServerRepo = []\<rparr>"

text \<open>
  \<^verbatim>\<open>NewListener\<close>. The result pairs what the function returns with the service
  afterwards: a repository written before a later step fails stays written.
  The two branches of the \<^verbatim>\<open>switch\<close> are definitions of their own.
\<close>

definition CreateListener_prefix :: string where
  "CreateListener_prefix = ''pkg/services/listeners.CreateListener(): ''"

definition NewListener_HTTP ::
  "'srv env \<Rightarrow> 'srv ListenerService \<Rightarrow> options \<Rightarrow> (error + 'srv listener) \<times> 'srv ListenerService"
where
  "NewListener_HTTP env ls opts =
     (case httpServer_New env opts of
        Inl err \<Rightarrow> (Inl (Errorf CreateListener_prefix err), ls)
      | Inr hServer \<Rightarrow>
         (case Add (server_ID env) (httpServerRepo ls) hServer of
            Inl err \<Rightarrow> (Inl (Errorf CreateListener_prefix err), ls)
          | Inr srepo \<Rightarrow>
             (let ls1 = ls\<lparr>httpServerRepo := srepo\<rparr> in
              case http_NewHTTPListener env hServer opts of
                Inl err \<Rightarrow> (Inl (Errorf CreateListener_prefix err), ls1)
              | Inr hListener \<Rightarrow>
                 (case Add http_ID (httpRepo ls1) hListener of
                    Inl err \<Rightarrow> (Inl (Errorf CreateListener_prefix err), ls1)
                  | Inr lrepo \<Rightarrow> (Inr (HTTPListener hListener), ls1\<lparr>httpRepo := lrepo\<rparr>)))))"

definition NewListener_TCP ::
  "'srv env \<Rightarrow> 'srv ListenerService \<Rightarrow> options \<Rightarrow> (error + 'srv listener) \<times> 'srv ListenerService"
where
  "NewListener_TCP env ls opts =
     (case tcp_NewTCPListener env opts of
        Inl err \<Rightarrow> (Inl (Errorf CreateListener_prefix err), ls)
      | Inr tListener \<Rightarrow>
         (case Add tcp_ID (tcpRepo ls) tListener of
            Inl err \<Rightarrow> (Inl (Errorf CreateListener_prefix err), ls)
          | Inr trepo \<Rightarrow> (Inr (TCPListener tListener), ls\<lparr>tcpRepo := trepo\<rparr>)))"

definition NewListener ::
  "'srv env \<Rightarrow> 'srv ListenerService \<Rightarrow> options \<Rightarrow> (error + 'srv listener) \<times> 'srv ListenerService"
where
  "NewListener env ls opts =
     (case opts ''Protocol'' of
        None \<Rightarrow>
          (Inl (Error (CreateListener_prefix @
             ''the options map did not contain the \"Protocol\" key'')), ls)
      | Some p \<Rightarrow>
          if ToLower p \<in> set [''http'', ''https'', ''h2c'', ''http2'', ''http3'']
          then NewListener_HTTP env ls opts
          else if ToLower p = ''tcp'' then NewListener_TCP env ls opts
          else (Inl (Error (CreateListener_prefix @ ''unhandled server type '' @
                  itoa (servers_FromString env p))), ls))"

text \<open>
  \<^verbatim>\<open>DefaultOptions\<close>. \<open>index m k\<close> is the Go expression \<^verbatim>\<open>m[k]\<close>, the empty
  string when the key is missing. The first loop stores the server's entries
  into the listener's map; the second collects the keys of that map; after
  \<^verbatim>\<open>sort.Strings\<close> the third loop stores every key with its value into the fresh
  map \<^verbatim>\<open>options\<close>, which is what the function returns: a
  \<^verbatim>\<open>map[string]string\<close>, a finite map with no order of its own.
\<close>

definition index :: "(string \<times> string) list \<Rightarrow> string \<Rightarrow> string" where
  "index m k = (case map_of m k of None \<Rightarrow> [] | Some v \<Rightarrow> v)"

definition merge_options ::
  "(string \<times> string) list \<Rightarrow> (string \<times> string) list \<Rightarrow> (string \<times> string) list"
where
  "merge_options serverOptions listenerOptions =
     fold (\<lambda>(k, v) m. AList.update k v m) serverOptions listenerOptions"

definition fill_options :: "(string \<times> string) list \<Rightarrow> string list \<Rightarrow> options" where
  "fill_options listenerOptions keys =
     fold (\<lambda>key m. m(key \<mapsto> index listenerOptions key)) keys Map.empty"

definition sorted_options :: "(string \<times> string) list \<Rightarrow> options" where
  "sorted_options listenerOptions = fill_options listenerOptions (sort (map fst listenerOptions))"

definition DefaultOptions :: "'srv env \<Rightarrow> string \<Rightarrow> error + options" where
  "DefaultOptions env protocol =
     (let tag = listeners_FromString env protocol in
      if tag = listeners_HTTP env then
        Inr (sorted_options
          (merge_options (httpServer_GetDefaultOptions env (servers_FromString env protocol))
             (http_DefaultOptions env)))
      else if tag = listeners_TCP env then
        Inr (sorted_options (merge_options [] (tcp_DefaultOptions env)))
      else Inl (Error (''pkg/services/listeners.DefaultOptions(): unhandled server type: '' @
             protocol)))"

text \<open>\<^verbatim>\<open>Listener\<close>: the HTTP repository is asked first, then the TCP repository.\<close>

definition Listener :: "'srv ListenerService \<Rightarrow> uuid \<Rightarrow> error + 'srv listener" where
  "Listener ls i =
     (case ListenerByID http_ID (httpRepo ls) i of
        Inr httpListener \<Rightarrow> Inr (HTTPListener httpListener)
      | Inl _ \<Rightarrow>
         (case ListenerByID tcp_ID (tcpRepo ls) i of
            Inr tcpListener \<Rightarrow> Inr (TCPListener tcpListener)
          | Inl _ \<Rightarrow>
              Inl (Error (''pkg/services/listeners.GetListenerByID(): could not find listener '' @
                uuid_String i))))"

text \<open>The error of \<open>Listener\<close> for an identifier that no repository holds.\<close>

definition could_not_find :: "uuid \<Rightarrow> error" where
  "could_not_find i =
     Error (''pkg/services/listeners.GetListenerByID(): could not find listener '' @ uuid_String i)"

text \<open>
  The loops \<^verbatim>\<open>for _, listener := range xs { list = append(list, &listener) }\<close>
  collect the address of the loop variable. \<open>range_addr\<close> gives what the collected
  pointers show after the loop: every element with a variable per iteration,
  and the last element at every position when the one variable is shared.
\<close>

definition range_addr :: "bool \<Rightarrow> 'a list \<Rightarrow> 'a list" where
  "range_addr per_iteration xs =
     (if per_iteration then xs else replicate (length xs) (last xs))"

text \<open>\<^verbatim>\<open>Listeners\<close>: the HTTP listeners, then the TCP listeners.\<close>

definition Listeners :: "'srv env \<Rightarrow> 'srv ListenerService \<Rightarrow> 'srv listener list" where
  "Listeners env ls =
     map HTTPListener (range_addr (loopvar_per_iteration env) (httpRepo ls)) @
     map TCPListener (range_addr (loopvar_per_iteration env) (tcpRepo ls))"

definition ListenerByName :: "'srv ListenerService \<Rightarrow> string \<Rightarrow> error + 'srv listener" where
  "ListenerByName ls n =
     (case ListenerByName_repo http_Name (httpRepo ls) n of
        Inr l \<Rightarrow> Inr (HTTPListener l)
      | Inl _ \<Rightarrow>
         (case ListenerByName_repo tcp_Name (tcpRepo ls) n of
            Inl err \<Rightarrow> Inl (Errorf ''pkg/services/listeners.GetListenerByName(): '' err)
          | Inr tcpListener \<Rightarrow> Inr (TCPListener tcpListener)))"

text \<open>\<^verbatim>\<open>ListenersByType\<close>: a \<^verbatim>\<open>switch\<close> with two cases and no default.\<close>

definition ListenersByType :: "'srv env \<Rightarrow> 'srv ListenerService \<Rightarrow> int \<Rightarrow> 'srv listener list" where
  "ListenersByType env ls protocol =
     (if protocol = listeners_HTTP env then
        map HTTPListener (range_addr (loopvar_per_iteration env) (httpRepo ls))
      else if protocol = listeners_TCP env then
        map TCPListener (range_addr (loopvar_per_iteration env) (tcpRepo ls))
      else [])"

text \<open>
  \<^verbatim>\<open>Remove\<close>: the listener is looked up with \<open>Listener\<close>, and the repository of
  its protocol removes the identifier.
\<close>

definition Remove ::
  "'srv env \<Rightarrow> 'srv ListenerService \<Rightarrow> uuid \<Rightarrow> (error + unit) \<times> 'srv ListenerService"
where
  "Remove env ls i =
     (case Listener ls i of
        Inl err \<Rightarrow> (Inl err, ls)
      | Inr listener \<Rightarrow>
          if Protocol env listener = listeners_HTTP env then
            (case RemoveByID http_ID (httpRepo ls) i of
               Inl err \<Rightarrow> (Inl err, ls)
             | Inr r \<Rightarrow> (Inr (), ls\<lparr>httpRepo := r\<rparr>))
          else if Protocol env listener = listeners_TCP env then
            (case RemoveByID tcp_ID (tcpRepo ls) i of
               Inl err \<Rightarrow> (Inl err, ls)
             | Inr r \<Rightarrow> (Inr (), ls\<lparr>tcpRepo := r\<rparr>))
          else (Inl (Error (''pkg/services/listeners.Remove(): unhandled listener protocol type '' @
                  itoa (Protocol env listener) @ '' for listener '' @ uuid_String i)), ls))"

text \<open>
  \<^verbatim>\<open>Start\<close>, \<^verbatim>\<open>Stop\<close> and \<^verbatim>\<open>Restart\<close> read the repositories and call the server.
  The calls that reach a server are returned as a trace, in the order they are
  made: \<open>Stop_call s\<close> is the synchronous \<^verbatim>\<open>server.Stop()\<close>, whose result comes
  from the environment; \<open>Go_Start s\<close> is the statement \<^verbatim>\<open>go server.Start()\<close>,
  which hands the blocking start to a new goroutine and returns at once.
\<close>

datatype 'srv call = Stop_call 'srv | Go_Start 'srv

definition Start ::
  "'srv env \<Rightarrow> 'srv ListenerService \<Rightarrow> uuid \<Rightarrow> (error + unit) \<times> 'srv call list"
where
  "Start env ls i =
     (case Listener ls i of
        Inl err \<Rightarrow> (Inl (Errorf ''pkg/services/listeners.Start(): '' err), [])
      | Inr listener \<Rightarrow>
          if Protocol env listener = listeners_HTTP env then
            (case deref (Server listener) of
               Inl panic \<Rightarrow> (Inl panic, [])
             | Inr server \<Rightarrow> (Inr (), [Go_Start server]))
          else if Protocol env listener = listeners_TCP env then (Inr (), [])
          else (Inl (Error (''pkg/services/listeners.Start(): unhandled listener protocol: '' @
                  itoa (Protocol env listener))), []))"

definition Stop ::
  "'srv env \<Rightarrow> 'srv ListenerService \<Rightarrow> uuid \<Rightarrow> (error + unit) \<times> 'srv call list"
where
  "Stop env ls i =
     (case Listener ls i of
        Inl err \<Rightarrow> (Inl (Errorf ''pkg/services/listeners.Restart(): '' err), [])
      | Inr listener \<Rightarrow>
         (case deref (Server listener) of
            Inl panic \<Rightarrow> (Inl panic, [])
          | Inr server \<Rightarrow> (server_Stop env server, [Stop_call server])))"

definition Restart ::
  "'srv env \<Rightarrow> 'srv ListenerService \<Rightarrow> uuid \<Rightarrow> (error + unit) \<times> 'srv call list"
where
  "Restart env ls i =
     (case Listener ls i of
        Inl err \<Rightarrow> (Inl (Errorf ''pkg/services/listeners.Restart(): '' err), [])
      | Inr listener \<Rightarrow>
         (case deref (Server listener) of
            Inl panic \<Rightarrow> (Inl panic, [])
          | Inr server \<Rightarrow>
             (case server_Stop env server of
                Inl err \<Rightarrow>
                  (Inl (Errorf ''pkg/services/listeners.Restart(): '' err), [Stop_call server])
              | Inr _ \<Rightarrow> (Inr (), [Stop_call server, Go_Start server]))))"

subsection \<open>A concrete environment and concrete services\<close>

text \<open>
  An environment for the examples: servers are named by their identifier; the
  server factory wants the option "Port" and the server numbered 2 refuses to
  stop; the tags and the \<^verbatim>\<open>FromString\<close> functions follow the protocol names.
\<close>

definition uuid_of :: "8 word \<Rightarrow> uuid" where
  "uuid_of b = replicate 15 0 @ [b]"

definition example_FromString :: "string \<Rightarrow> int" where
  "example_FromString s =
     (if ToLower s \<in> set [''http'', ''https'', ''h2c'', ''http2'', ''http3''] then 1
      else if ToLower s = ''tcp'' then 2 else 0)"

definition example_env :: "uuid env" where
  "example_env = \<lparr>
     loopvar_per_iteration = False,
     listeners_HTTP = 1,
     listeners_TCP = 2,
     listeners_FromString = example_FromString,
     servers_FromString = (\<lambda>s. if ToLower s = ''https'' then 2 else if ToLower s = ''http'' then 1 else 0),
     httpServer_New = (\<lambda>opts. case opts ''Port'' of
                          None \<Rightarrow> Inl (Error ''ConfigurationError'')
                        | Some _ \<Rightarrow> Inr (uuid_of 1)),
     httpServer_GetDefaultOptions = (\<lambda>_. [(''Port'', ''80''), (''Interface'', ''127.0.0.1'')]),
     server_ID = (\<lambda>s. s),
     server_Stop = (\<lambda>s. if s = uuid_of 2 then Inl (Error ''server refused to stop'') else Inr ()),
     http_NewHTTPListener = (\<lambda>s opts. Inr \<lparr>http_ID = uuid_of 3, http_Name = ''Default'',
                               http_Options = opts, http_Server = s\<rparr>),
     http_DefaultOptions = [(''Name'', ''Default''), (''Description'', ''Default HTTP Listener'')],
     tcp_NewTCPListener = (\<lambda>opts. Inr \<lparr>tcp_ID = uuid_of 4, tcp_Name = ''Default'',
                               tcp_Options = opts\<rparr>),
     tcp_DefaultOptions = [(''Port'', ''4444''), (''Interface'', ''127.0.0.1'')]\<rparr>"

definition tcp4 :: tcp_listener where
  "tcp4 = \<lparr>tcp_ID = uuid_of 4, tcp_Name = ''Default'', tcp_Options = [''Protocol'' \<mapsto> ''tcp'']\<rparr>"

definition http3 :: "uuid http_listener" where
  "http3 = \<lparr>http_ID = uuid_of 3, http_Name = ''Default'',
            http_Options = [''Protocol'' \<mapsto> ''https''], http_Server = uuid_of 1\<rparr>"

definition http5 :: "uuid http_listener" where
  "http5 = \<lparr>http_ID = uuid_of 5, http_Name = ''Second'',
            http_Options = [''Protocol'' \<mapsto> ''http''], http_Server = uuid_of 2\<rparr>"

text \<open>The service after one raw-socket listener was created, and one with both kinds.\<close>

definition tcp_service :: "uuid ListenerService" where
  "tcp_service = \<lparr>tcpRepo = [tcp4], httpRepo = [], httpServerRepo = []\<rparr>"

definition http_service :: "uuid ListenerService" where
  "http_service = \<lparr>tcpRepo = [], httpRepo = [http3], httpServerRepo = [uuid_of 1]\<rparr>"

definition both_service :: "uuid ListenerService" where
  "both_service = \<lparr>tcpRepo = [tcp4], httpRepo = [http3, http5],
                     httpServerRepo = [uuid_of 1, uuid_of 2]\<rparr>"

section \<open>Properties\<close>

subsection \<open>Case-insensitive matching\<close>

text \<open>
  \<open>ToLower\<close> sends a string to a name without capital letters exactly when the
  string is a letter-casing of that name.
\<close>

lemma lower_char_same_letter:
  assumes "same_letter c d" "\<not> (65 \<le> (of_char d :: nat) \<and> (of_char d :: nat) \<le> 90)"
  shows "lower_char c = d"
proof (cases "c = d")
  case True
  with assms(2) show ?thesis by (auto simp: lower_char_def Let_def)
next
  case False
  with assms(1) have c: "c = upper_char d" by (simp add: same_letter_def)
  with False have d: "97 \<le> (of_char d :: nat)" "(of_char d :: nat) \<le> 122"
    and c': "c = char_of (of_char d - 32 :: nat)"
    by (auto simp: upper_char_def Let_def split: if_splits)
  have n: "(of_char c :: nat) = of_char d - 32" using d by (simp add: c')
  have "char_of (of_char d - 32 + 32 :: nat) = d" using d by simp
  moreover have "65 \<le> (of_char d - 32 :: nat) \<and> (of_char d - 32 :: nat) \<le> 90" using d by arith
  ultimately show ?thesis unfolding lower_char_def Let_def n by simp
qed

lemma same_letter_lower_char: "same_letter c (lower_char c)"
proof (cases "65 \<le> (of_char c :: nat) \<and> (of_char c :: nat) \<le> 90")
  case True
  then have l: "lower_char c = char_of (of_char c + 32 :: nat)" by (simp add: lower_char_def Let_def)
  have n: "(of_char (char_of (of_char c + 32 :: nat)) :: nat) = of_char c + 32" using True by simp
  have "upper_char (char_of (of_char c + 32 :: nat)) = char_of (of_char c + 32 - 32 :: nat)"
    unfolding upper_char_def Let_def n using True by simp
  then show ?thesis by (simp add: same_letter_def l)
next
  case False
  then show ?thesis by (auto simp: same_letter_def lower_char_def Let_def)
qed

lemma ToLower_casing_of:
  assumes "no_upper name"
  shows "casing_of s name \<longleftrightarrow> ToLower s = name"
  using assms
proof (induction s arbitrary: name)
  case Nil
  then show ?case by (auto simp: casing_of_def ToLower_def)
next
  case (Cons c s)
  show ?case
  proof (cases name)
    case Nil
    then show ?thesis by (simp add: casing_of_def ToLower_def)
  next
    case (Cons d ds)
    with Cons.prems have nd: "\<not> (65 \<le> (of_char d :: nat) \<and> (of_char d :: nat) \<le> 90)" and nds: "no_upper ds"
      by (simp_all add: no_upper_def)
    have "same_letter c d \<longleftrightarrow> lower_char c = d"
      using lower_char_same_letter [OF _ nd] same_letter_lower_char [of c] by auto
    with Cons.IH [OF nds] Cons show ?thesis by (simp add: casing_of_def ToLower_def)
  qed
qed

lemma selects_HTTP_ToLower:
  "selects_HTTP p \<longleftrightarrow> ToLower p \<in> set [''http'', ''https'', ''h2c'', ''http2'', ''http3'']"
  by (simp add: selects_HTTP_def HTTP_family_def ToLower_casing_of no_upper_def)

lemma selects_TCP_ToLower: "selects_TCP p \<longleftrightarrow> ToLower p = ''tcp''"
  by (simp add: selects_TCP_def ToLower_casing_of no_upper_def)

subsection \<open>Lookups in a repository\<close>

lemma find_snoc:
  "find P (xs @ [x]) = (case find P xs of None \<Rightarrow> (if P x then Some x else None) | Some y \<Rightarrow> Some y)"
  by (induction xs) simp_all

lemma ListenerByID_missing:
  assumes "\<not> list_ex (\<lambda>y. key y = i) repo"
  shows "ListenerByID key repo i = Inl NotFoundError"
proof -
  from assms have "find (\<lambda>y. key y = i) repo = None"
    by (simp add: find_None_iff list_ex_iff)
  then show ?thesis by (simp add: ListenerByID_def)
qed

lemma ListenerByID_held:
  assumes "list_ex (\<lambda>y. key y = i) repo"
  shows "\<exists>y\<in>set repo. key y = i \<and> ListenerByID key repo i = Inr y"
proof -
  from assms obtain y where f: "find (\<lambda>y. key y = i) repo = Some y"
    by (cases "find (\<lambda>y. key y = i) repo") (auto simp: find_None_iff list_ex_iff)
  then have "y \<in> set repo \<and> key y = i" by (auto simp: find_Some_iff)
  with f show ?thesis by (auto simp: ListenerByID_def)
qed

lemma ListenerByID_Add:
  assumes "Add key repo x = Inr r"
  shows "ListenerByID key r (key x) = Inr x"
proof -
  from assms have n: "\<not> list_ex (\<lambda>y. key y = key x) repo" and r: "r = repo @ [x]"
    by (auto simp: Add_def split: if_splits)
  from n have "find (\<lambda>y. key y = key x) repo = None"
    by (simp add: find_None_iff list_ex_iff)
  then have "find (\<lambda>y. key y = key x) (repo @ [x]) = Some x"
    by (simp add: find_snoc)
  with r show ?thesis by (simp add: ListenerByID_def)
qed

lemma ListenerByID_RemoveByID:
  assumes "RemoveByID key repo i = Inr r"
  shows "ListenerByID key r i = Inl NotFoundError"
proof -
  from assms have "r = filter (\<lambda>y. key y \<noteq> i) repo"
    by (auto simp: RemoveByID_def split: if_splits)
  then have "\<not> list_ex (\<lambda>y. key y = i) r" by (simp add: list_ex_iff)
  then show ?thesis by (rule ListenerByID_missing)
qed

lemma ListenerByName_repo_found:
  assumes "\<exists>y\<in>set repo. nm y = n"
  shows "\<exists>y\<in>set repo. nm y = n \<and> ListenerByName_repo nm repo n = Inr y"
proof -
  from assms obtain y where f: "find (\<lambda>y. nm y = n) repo = Some y"
    by (cases "find (\<lambda>y. nm y = n) repo") (auto simp: find_None_iff)
  then have "y \<in> set repo \<and> nm y = n"
    by (auto simp: find_Some_iff)
  with f show ?thesis by (auto simp: ListenerByName_repo_def)
qed

lemma ListenerByName_repo_missing:
  assumes "\<not> (\<exists>y\<in>set repo. nm y = n)"
  shows "ListenerByName_repo nm repo n = Inl NotFoundError"
proof -
  from assms have "find (\<lambda>y. nm y = n) repo = None" by (simp add: find_None_iff)
  then show ?thesis by (simp add: ListenerByName_repo_def)
qed

subsection \<open>The example services\<close>

lemma Listener_both_service:
  "Listener both_service (uuid_of 3) = Inr (HTTPListener http3)"
  "Listener both_service (uuid_of 5) = Inr (HTTPListener http5)"
  "Listener both_service (uuid_of 4) = Inr (TCPListener tcp4)"
  by (simp_all add: Listener_def ListenerByID_def both_service_def http3_def http5_def tcp4_def
      uuid_of_def)

lemma uuid_String_9: "uuid_String (uuid_of 9) = ''00000000-0000-0000-0000-000000000009''"
  by code_simp

subsection \<open>Creation\<close>

text \<open>
  C4. For every option map that does not contain the key "Protocol",
  \<open>NewListener\<close> returns the validation error (the message says that the key is
  missing) and the service is returned as it was: no repository gains a record.
\<close>

theorem NewListener_missing_Protocol:
  assumes "opts ''Protocol'' = None"
  shows "NewListener env ls opts =
    (Inl (Error ''pkg/services/listeners.CreateListener(): the options map did not contain the \"Protocol\" key''), ls)"
  using assms by (simp add: NewListener_def CreateListener_prefix_def)

theorem NewListener_missing_Protocol_witness:
  "[''Port'' \<mapsto> ''4444''] ''Protocol'' = None \<and>
   NewListener example_env both_service [''Port'' \<mapsto> ''4444''] =
    (Inl (Error ''pkg/services/listeners.CreateListener(): the options map did not contain the \"Protocol\" key''), both_service)"
  using NewListener_missing_Protocol [of "[''Port'' \<mapsto> ''4444'']" example_env both_service]
  by simp

text \<open>
  C5. Dispatch on the protocol is case-insensitive and never defaults. When the
  value of "Protocol" is an HTTP-family name in any letter-casing,
  \<open>NewListener\<close> is its HTTP branch; when it is a letter-casing of "tcp",
  \<open>NewListener\<close> is its raw-socket branch; when it is a letter-casing of no
  supported name, \<open>NewListener\<close> fails with the unsupported-protocol error
  ("unhandled server type") and leaves the service as it was.
\<close>

theorem NewListener_dispatch:
  assumes "opts ''Protocol'' = Some p"
  shows "(selects_HTTP p \<longrightarrow> NewListener env ls opts = NewListener_HTTP env ls opts) \<and>
         (selects_TCP p \<longrightarrow> NewListener env ls opts = NewListener_TCP env ls opts) \<and>
         (\<not> selects_HTTP p \<and> \<not> selects_TCP p \<longrightarrow>
            NewListener env ls opts =
              (Inl (Error (''pkg/services/listeners.CreateListener(): unhandled server type '' @
                 itoa (servers_FromString env p))), ls))"
proof -
  have "\<not> (selects_HTTP p \<and> selects_TCP p)"
    by (auto simp: selects_HTTP_ToLower selects_TCP_ToLower)
  then show ?thesis
    using assms
    by (auto simp: NewListener_def CreateListener_prefix_def selects_HTTP_ToLower selects_TCP_ToLower)
qed

theorem NewListener_dispatch_witness:
  "selects_HTTP ''HtTpS'' \<and>
   NewListener example_env both_service [''Protocol'' \<mapsto> ''HtTpS''] =
     NewListener_HTTP example_env both_service [''Protocol'' \<mapsto> ''HtTpS''] \<and>
   NewListener example_env both_service [''Protocol'' \<mapsto> ''HtTpS''] =
     (Inl (Error ''pkg/services/listeners.CreateListener(): ConfigurationError''), both_service) \<and>
   selects_TCP ''Tcp'' \<and>
   NewListener example_env both_service [''Protocol'' \<mapsto> ''Tcp''] =
     NewListener_TCP example_env both_service [''Protocol'' \<mapsto> ''Tcp''] \<and>
   NewListener example_env both_service [''Protocol'' \<mapsto> ''Tcp''] =
     (Inl (Error ''pkg/services/listeners.CreateListener(): DuplicateError''), both_service) \<and>
   \<not> selects_HTTP ''HTTP4'' \<and> \<not> selects_TCP ''HTTP4'' \<and>
   NewListener example_env both_service [''Protocol'' \<mapsto> ''HTTP4''] =
     (Inl (Error ''pkg/services/listeners.CreateListener(): unhandled server type 0''), both_service)"
proof -
  have h: "selects_HTTP ''HtTpS''" by code_simp
  have t: "selects_TCP ''Tcp''" by code_simp
  have n: "\<not> selects_HTTP ''HTTP4''" "\<not> selects_TCP ''HTTP4''" by code_simp+
  have d: "itoa (servers_FromString example_env ''HTTP4'') = ''0''" by code_simp
  have bh: "NewListener_HTTP example_env both_service [''Protocol'' \<mapsto> ''HtTpS''] =
     (Inl (Error ''pkg/services/listeners.CreateListener(): ConfigurationError''), both_service)"
    by (simp add: NewListener_HTTP_def example_env_def CreateListener_prefix_def)
  have bt: "NewListener_TCP example_env both_service [''Protocol'' \<mapsto> ''Tcp''] =
     (Inl (Error ''pkg/services/listeners.CreateListener(): DuplicateError''), both_service)"
    by (simp add: NewListener_TCP_def example_env_def CreateListener_prefix_def Add_def
        both_service_def tcp4_def DuplicateError_def)
  show ?thesis
    using h t n d bh bt
      NewListener_dispatch [of "[''Protocol'' \<mapsto> ''HtTpS'']" "''HtTpS''" example_env both_service]
      NewListener_dispatch [of "[''Protocol'' \<mapsto> ''Tcp'']" "''Tcp''" example_env both_service]
      NewListener_dispatch [of "[''Protocol'' \<mapsto> ''HTTP4'']" "''HTTP4''" example_env both_service]
    by simp
qed

text \<open>
  C2. For every option map whose "Protocol" value selects the HTTP family, if
  the server factory fails then \<open>NewListener\<close> returns that failure as an error
  and the service is returned as it was: neither a Server nor a Listener is
  stored.
\<close>

theorem NewListener_server_construction_fails:
  assumes "opts ''Protocol'' = Some p" "selects_HTTP p" "httpServer_New env opts = Inl err"
  shows "NewListener env ls opts =
           (Inl (Errorf ''pkg/services/listeners.CreateListener(): '' err), ls)"
  using assms
  by (simp add: NewListener_def NewListener_HTTP_def CreateListener_prefix_def selects_HTTP_ToLower)

theorem NewListener_server_construction_fails_witness:
  "[''Protocol'' \<mapsto> ''HTTPS'', ''Cert'' \<mapsto> ''/no/such/file''] ''Protocol'' = Some ''HTTPS'' \<and>
   selects_HTTP ''HTTPS'' \<and>
   httpServer_New example_env [''Protocol'' \<mapsto> ''HTTPS'', ''Cert'' \<mapsto> ''/no/such/file''] =
     Inl (Error ''ConfigurationError'') \<and>
   NewListener example_env both_service [''Protocol'' \<mapsto> ''HTTPS'', ''Cert'' \<mapsto> ''/no/such/file''] =
     (Inl (Error ''pkg/services/listeners.CreateListener(): ConfigurationError''), both_service)"
proof -
  have p: "[''Protocol'' \<mapsto> ''HTTPS'', ''Cert'' \<mapsto> ''/no/such/file''] ''Protocol'' = Some ''HTTPS''"
    by simp
  have h: "selects_HTTP ''HTTPS''" by code_simp
  have f: "httpServer_New example_env [''Protocol'' \<mapsto> ''HTTPS'', ''Cert'' \<mapsto> ''/no/such/file''] =
     Inl (Error ''ConfigurationError'')"
    by (simp add: example_env_def)
  show ?thesis
    using p h f NewListener_server_construction_fails [OF p h f, of both_service] by simp
qed

subsection \<open>Default options\<close>

text \<open>
  The map that \<open>DefaultOptions\<close> returns holds every key of the listener's and of
  the server's defaults, and depends on the set of keys stored only, not on the
  order in which they were stored.
\<close>

lemma fold_store:
  "fold (\<lambda>key m. m(key \<mapsto> f key)) ks m0 = (\<lambda>k. if k \<in> set ks then Some (f k) else m0 k)"
  by (induction ks arbitrary: m0) (auto simp: fun_eq_iff)

lemma fill_options_eq:
  "fill_options lo ks = (\<lambda>k. if k \<in> set ks then Some (index lo k) else None)"
  by (simp add: fill_options_def fold_store)

lemma fill_options_same_keys:
  "set ks = set ks' \<Longrightarrow> fill_options lo ks = fill_options lo ks'"
  by (simp add: fill_options_eq)

lemma dom_fill_options: "dom (fill_options lo ks) = set ks"
  by (auto simp: fill_options_eq dom_def)

lemma keys_merge_options:
  "fst ` set (merge_options so lo) = fst ` set lo \<union> fst ` set so"
  unfolding merge_options_def
proof (induction so arbitrary: lo)
  case Nil
  then show ?case by simp
next
  case (Cons kv so)
  obtain k v where kv: "kv = (k, v)" by (cases kv)
  have "fst ` set (fold (\<lambda>(k, v). AList.update k v) so (AList.update k v lo)) =
      fst ` set (AList.update k v lo) \<union> fst ` set so"
    by (rule Cons.IH)
  then show ?case by (simp add: kv dom_update Un_ac)
qed

lemma dom_sorted_options: "dom (sorted_options lo) = fst ` set lo"
  by (simp add: sorted_options_def dom_fill_options)

lemma sorted_options_any_order:
  "set ks = fst ` set lo \<Longrightarrow> sorted_options lo = fill_options lo ks"
  by (simp add: sorted_options_def fill_options_eq)

lemma DefaultOptions_HTTP_keys:
  assumes "listeners_FromString env protocol = listeners_HTTP env"
  shows "\<exists>m. DefaultOptions env protocol = Inr m \<and>
           dom m = fst ` set (http_DefaultOptions env) \<union>
                   fst ` set (httpServer_GetDefaultOptions env (servers_FromString env protocol))"
  using assms by (simp add: DefaultOptions_def dom_sorted_options keys_merge_options)

text \<open>
  C3. The specification has \<open>DefaultOptions\<close> return its pairs with the keys in
  strictly ascending order. The code sorts the keys and then stores the pairs
  into a Go map, which keeps no order. At the raw-socket defaults of the example
  environment: the sorted keys are Interface, Port; the returned map is the one
  obtained by storing in that order, and it is equally the one obtained by
  storing in the descending order Port, Interface.
\<close>

theorem DefaultOptions_returns_unordered_map:
  "sort (map fst (tcp_DefaultOptions example_env)) = [''Interface'', ''Port''] \<and>
   DefaultOptions example_env ''tcp'' =
     Inr (fill_options (tcp_DefaultOptions example_env) [''Interface'', ''Port'']) \<and>
   DefaultOptions example_env ''tcp'' =
     Inr (fill_options (tcp_DefaultOptions example_env) [''Port'', ''Interface'']) \<and>
   DefaultOptions example_env ''tcp'' = Inr [''Port'' \<mapsto> ''4444'', ''Interface'' \<mapsto> ''127.0.0.1'']"
proof -
  have t: "listeners_FromString example_env ''tcp'' = 2"
    unfolding example_env_def by simp code_simp
  have k: "sort (map fst (tcp_DefaultOptions example_env)) = [''Interface'', ''Port'']"
    unfolding example_env_def by simp
  have d: "DefaultOptions example_env ''tcp'' =
     Inr (fill_options (tcp_DefaultOptions example_env) [''Interface'', ''Port''])"
    using t k by (simp add: DefaultOptions_def sorted_options_def merge_options_def example_env_def)
  have f: "fill_options (tcp_DefaultOptions example_env) [''Port'', ''Interface''] =
      [''Port'' \<mapsto> ''4444'', ''Interface'' \<mapsto> ''127.0.0.1'']"
    by (simp add: fill_options_def index_def example_env_def)
  show ?thesis
    using k d f fill_options_same_keys [of "[''Interface'', ''Port'']" "[''Port'', ''Interface'']"
      "tcp_DefaultOptions example_env"]
    by auto
qed

subsection \<open>Lookups of the service\<close>

text \<open>
  C7. \<open>ListenerByName\<close> asks the HTTP repository before the raw-socket one.
  When the HTTP repository holds a listener of the name (whether or not the
  raw-socket repository holds one too), an HTTP listener of that name is
  returned and there is no error; when only the raw-socket repository holds
  one, a raw-socket listener of that name is returned; when neither does, the
  result is the not-found error of the raw-socket repository, prefixed.
\<close>

theorem ListenerByName_priority:
  "((\<exists>h\<in>set (httpRepo ls). http_Name h = n) \<longrightarrow>
      (\<exists>h\<in>set (httpRepo ls). http_Name h = n \<and> ListenerByName ls n = Inr (HTTPListener h))) \<and>
   (\<not> (\<exists>h\<in>set (httpRepo ls). http_Name h = n) \<and> (\<exists>t\<in>set (tcpRepo ls). tcp_Name t = n) \<longrightarrow>
      (\<exists>t\<in>set (tcpRepo ls). tcp_Name t = n \<and> ListenerByName ls n = Inr (TCPListener t))) \<and>
   (\<not> (\<exists>h\<in>set (httpRepo ls). http_Name h = n) \<and> \<not> (\<exists>t\<in>set (tcpRepo ls). tcp_Name t = n) \<longrightarrow>
      ListenerByName ls n =
        Inl (Errorf ''pkg/services/listeners.GetListenerByName(): '' NotFoundError))"
proof (intro conjI impI)
  assume "\<exists>h\<in>set (httpRepo ls). http_Name h = n"
  from ListenerByName_repo_found [OF this]
  show "\<exists>h\<in>set (httpRepo ls). http_Name h = n \<and> ListenerByName ls n = Inr (HTTPListener h)"
    by (auto simp: ListenerByName_def)
next
  assume a: "\<not> (\<exists>h\<in>set (httpRepo ls). http_Name h = n) \<and> (\<exists>t\<in>set (tcpRepo ls). tcp_Name t = n)"
  then have h: "ListenerByName_repo http_Name (httpRepo ls) n = Inl NotFoundError"
    by (simp add: ListenerByName_repo_missing)
  from a have "\<exists>t\<in>set (tcpRepo ls). tcp_Name t = n" by simp
  from ListenerByName_repo_found [OF this] h
  show "\<exists>t\<in>set (tcpRepo ls). tcp_Name t = n \<and> ListenerByName ls n = Inr (TCPListener t)"
    by (auto simp: ListenerByName_def)
next
  assume a: "\<not> (\<exists>h\<in>set (httpRepo ls). http_Name h = n) \<and> \<not> (\<exists>t\<in>set (tcpRepo ls). tcp_Name t = n)"
  then have "ListenerByName_repo http_Name (httpRepo ls) n = Inl NotFoundError"
    and "ListenerByName_repo tcp_Name (tcpRepo ls) n = Inl NotFoundError"
    by (simp_all add: ListenerByName_repo_missing)
  then show "ListenerByName ls n =
        Inl (Errorf ''pkg/services/listeners.GetListenerByName(): '' NotFoundError)"
    by (simp add: ListenerByName_def)
qed

theorem ListenerByName_priority_witness:
  "(\<exists>h\<in>set (httpRepo both_service). http_Name h = ''Default'') \<and>
   (\<exists>t\<in>set (tcpRepo both_service). tcp_Name t = ''Default'') \<and>
   ListenerByName both_service ''Default'' = Inr (HTTPListener http3) \<and>
   ListenerByName both_service ''Second'' = Inr (HTTPListener http5) \<and>
   ListenerByName tcp_service ''Default'' = Inr (TCPListener tcp4) \<and>
   ListenerByName both_service ''Third'' =
     Inl (Error ''pkg/services/listeners.GetListenerByName(): NotFoundError'')"
  using ListenerByName_priority [of both_service "''Default''"]
    ListenerByName_priority [of both_service "''Second''"]
    ListenerByName_priority [of tcp_service "''Default''"]
    ListenerByName_priority [of both_service "''Third''"]
  by (simp add: both_service_def tcp_service_def http3_def http5_def tcp4_def NotFoundError_def)

text \<open>
  The service's \<open>Listener\<close> and \<open>Remove\<close> over repositories that share no
  identifier.
\<close>

lemma ids_disjoint_held:
  assumes "ids_disjoint ls"
  shows "\<not> (list_ex (\<lambda>y. http_ID y = i) (httpRepo ls) \<and> list_ex (\<lambda>y. tcp_ID y = i) (tcpRepo ls))"
  using assms by (auto simp: ids_disjoint_def list_all_iff list_ex_iff)

lemma Add_holds_key:
  assumes "Add key repo x = Inr r"
  shows "list_ex (\<lambda>y. key y = key x) r"
  using assms by (auto simp: Add_def list_ex_iff split: if_splits)

lemma RemoveByID_held:
  assumes "RemoveByID key repo i = Inr r"
  shows "list_ex (\<lambda>y. key y = i) repo"
  using assms by (auto simp: RemoveByID_def split: if_splits)

lemma Listener_absent:
  assumes "\<not> list_ex (\<lambda>y. http_ID y = i) (httpRepo ls)" "\<not> list_ex (\<lambda>y. tcp_ID y = i) (tcpRepo ls)"
  shows "Listener ls i = Inl (could_not_find i)"
  using ListenerByID_missing [OF assms(1)] ListenerByID_missing [OF assms(2)]
  by (simp add: Listener_def could_not_find_def)

lemma Listener_held_http:
  assumes "list_ex (\<lambda>y. http_ID y = i) (httpRepo ls)"
  shows "\<exists>l. Listener ls i = Inr l"
  using ListenerByID_held [OF assms] by (auto simp: Listener_def)

lemma Listener_held_tcp:
  assumes "list_ex (\<lambda>y. tcp_ID y = i) (tcpRepo ls)"
  shows "\<exists>l. Listener ls i = Inr l"
proof (cases "list_ex (\<lambda>y. http_ID y = i) (httpRepo ls)")
  case True
  then show ?thesis by (rule Listener_held_http)
next
  case False
  from ListenerByID_missing [OF False] ListenerByID_held [OF assms]
  show ?thesis by (auto simp: Listener_def)
qed

lemma Listener_error_iff:
  "(\<exists>err. Listener ls i = Inl err) \<longleftrightarrow>
     \<not> list_ex (\<lambda>y. http_ID y = i) (httpRepo ls) \<and> \<not> list_ex (\<lambda>y. tcp_ID y = i) (tcpRepo ls)"
  using Listener_absent [of i ls] Listener_held_http [of i ls] Listener_held_tcp [of i ls]
  by auto

lemma Listener_after_RemoveByID_http:
  assumes "ids_disjoint ls" "RemoveByID http_ID (httpRepo ls) i = Inr hr"
  shows "Listener (ls\<lparr>httpRepo := hr\<rparr>) i = Inl (could_not_find i)"
proof -
  from RemoveByID_held [OF assms(2)] ids_disjoint_held [OF assms(1), of i]
  have t: "\<not> list_ex (\<lambda>y. tcp_ID y = i) (tcpRepo ls)" by simp
  from assms(2) have "hr = filter (\<lambda>y. http_ID y \<noteq> i) (httpRepo ls)"
    by (auto simp: RemoveByID_def split: if_splits)
  then have h: "\<not> list_ex (\<lambda>y. http_ID y = i) hr" by (simp add: list_ex_iff)
  from h t show ?thesis by (intro Listener_absent) simp_all
qed

lemma Listener_after_RemoveByID_tcp:
  assumes "ids_disjoint ls" "RemoveByID tcp_ID (tcpRepo ls) i = Inr tr"
  shows "Listener (ls\<lparr>tcpRepo := tr\<rparr>) i = Inl (could_not_find i)"
proof -
  from RemoveByID_held [OF assms(2)] ids_disjoint_held [OF assms(1), of i]
  have h: "\<not> list_ex (\<lambda>y. http_ID y = i) (httpRepo ls)" by simp
  from assms(2) have "tr = filter (\<lambda>y. tcp_ID y \<noteq> i) (tcpRepo ls)"
    by (auto simp: RemoveByID_def split: if_splits)
  then have t: "\<not> list_ex (\<lambda>y. tcp_ID y = i) tr" by (simp add: list_ex_iff)
  from h t show ?thesis by (intro Listener_absent) simp_all
qed

lemma Listener_after_Remove:
  assumes d: "ids_disjoint ls" and tags: "listeners_HTTP env \<noteq> listeners_TCP env"
    and r: "Remove env ls i = (Inr (), ls')"
  shows "Listener ls' i = Inl (could_not_find i)"
proof (cases "Listener ls i")
  case (Inl err)
  with r show ?thesis by (simp add: Remove_def)
next
  case (Inr l)
  show ?thesis
  proof (cases l)
    case (HTTPListener h)
    with Inr r obtain hr where "RemoveByID http_ID (httpRepo ls) i = Inr hr" "ls' = ls\<lparr>httpRepo := hr\<rparr>"
      by (auto simp: Remove_def split: sum.splits)
    with Listener_after_RemoveByID_http [OF d] show ?thesis by simp
  next
    case (TCPListener t)
    with Inr r tags obtain tr where "RemoveByID tcp_ID (tcpRepo ls) i = Inr tr" "ls' = ls\<lparr>tcpRepo := tr\<rparr>"
      by (auto simp: Remove_def split: sum.splits)
    with Listener_after_RemoveByID_tcp [OF d] show ?thesis by simp
  qed
qed

text \<open>
  C8. \<open>Listener\<close> is the inverse of adding a listener, identifiers being
  process-unique (no identifier is held by both repositories). Right after a
  listener is added to its repository, \<open>Listener\<close> returns it for its
  identifier (for the HTTP repository, which is asked first, this holds with no
  condition). After a listener is removed by its identifier, by \<open>RemoveByID\<close>
  of its repository or by \<open>Remove\<close> of the service, \<open>Listener\<close> fails for that
  identifier with the not-found error. \<open>Listener\<close> returns the not-found error
  exactly when neither repository holds the identifier, and it returns no other
  error.
\<close>

theorem Listener_inverse_of_Add:
  "(Add http_ID (httpRepo ls) h = Inr hr \<longrightarrow>
      Listener (ls\<lparr>httpRepo := hr\<rparr>) (http_ID h) = Inr (HTTPListener h)) \<and>
   (Add tcp_ID (tcpRepo ls) t = Inr tr \<and> ids_disjoint (ls\<lparr>tcpRepo := tr\<rparr>) \<longrightarrow>
      Listener (ls\<lparr>tcpRepo := tr\<rparr>) (tcp_ID t) = Inr (TCPListener t)) \<and>
   (ids_disjoint ls \<and> RemoveByID http_ID (httpRepo ls) i = Inr hr' \<longrightarrow>
      Listener (ls\<lparr>httpRepo := hr'\<rparr>) i = Inl (could_not_find i)) \<and>
   (ids_disjoint ls \<and> RemoveByID tcp_ID (tcpRepo ls) i = Inr tr' \<longrightarrow>
      Listener (ls\<lparr>tcpRepo := tr'\<rparr>) i = Inl (could_not_find i)) \<and>
   (ids_disjoint ls \<and> listeners_HTTP env \<noteq> listeners_TCP env \<and> Remove env ls i = (Inr (), ls') \<longrightarrow>
      Listener ls' i = Inl (could_not_find i)) \<and>
   (Listener ls i = Inl (could_not_find i) \<longleftrightarrow>
      \<not> list_ex (\<lambda>y. http_ID y = i) (httpRepo ls) \<and> \<not> list_ex (\<lambda>y. tcp_ID y = i) (tcpRepo ls)) \<and>
   (\<forall>err. Listener ls i = Inl err \<longrightarrow> err = could_not_find i)"
proof (intro conjI impI allI)
  assume "Add http_ID (httpRepo ls) h = Inr hr"
  from ListenerByID_Add [OF this]
  show "Listener (ls\<lparr>httpRepo := hr\<rparr>) (http_ID h) = Inr (HTTPListener h)"
    by (simp add: Listener_def)
next
  assume a: "Add tcp_ID (tcpRepo ls) t = Inr tr \<and> ids_disjoint (ls\<lparr>tcpRepo := tr\<rparr>)"
  then have "list_ex (\<lambda>y. tcp_ID y = tcp_ID t) (tcpRepo (ls\<lparr>tcpRepo := tr\<rparr>))"
    using Add_holds_key [of tcp_ID "tcpRepo ls" t tr] by simp
  with a ids_disjoint_held [of "ls\<lparr>tcpRepo := tr\<rparr>" "tcp_ID t"]
  have "\<not> list_ex (\<lambda>y. http_ID y = tcp_ID t) (httpRepo ls)" by simp
  then have "ListenerByID http_ID (httpRepo ls) (tcp_ID t) = Inl NotFoundError"
    by (rule ListenerByID_missing)
  moreover from a have "ListenerByID tcp_ID tr (tcp_ID t) = Inr t"
    using ListenerByID_Add [of tcp_ID "tcpRepo ls" t tr] by simp
  ultimately show "Listener (ls\<lparr>tcpRepo := tr\<rparr>) (tcp_ID t) = Inr (TCPListener t)"
    by (simp add: Listener_def)
next
  assume "ids_disjoint ls \<and> RemoveByID http_ID (httpRepo ls) i = Inr hr'"
  then show "Listener (ls\<lparr>httpRepo := hr'\<rparr>) i = Inl (could_not_find i)"
    using Listener_after_RemoveByID_http [of ls i hr'] by simp
next
  assume "ids_disjoint ls \<and> RemoveByID tcp_ID (tcpRepo ls) i = Inr tr'"
  then show "Listener (ls\<lparr>tcpRepo := tr'\<rparr>) i = Inl (could_not_find i)"
    using Listener_after_RemoveByID_tcp [of ls i tr'] by simp
next
  assume "ids_disjoint ls \<and> listeners_HTTP env \<noteq> listeners_TCP env \<and> Remove env ls i = (Inr (), ls')"
  then show "Listener ls' i = Inl (could_not_find i)"
    using Listener_after_Remove [of ls env i ls'] by simp
next
  show "Listener ls i = Inl (could_not_find i) \<longleftrightarrow>
      \<not> list_ex (\<lambda>y. http_ID y = i) (httpRepo ls) \<and> \<not> list_ex (\<lambda>y. tcp_ID y = i) (tcpRepo ls)"
    using Listener_error_iff [of ls i] Listener_absent [of i ls] by auto
next
  fix err
  assume e: "Listener ls i = Inl err"
  then have "\<exists>err. Listener ls i = Inl err" by blast
  with Listener_error_iff [of ls i] Listener_absent [of i ls] e
  show "err = could_not_find i" by simp
qed

theorem Listener_inverse_of_Add_witness:
  "Add http_ID (httpRepo tcp_service) http3 = Inr [http3] \<and>
   Listener (tcp_service\<lparr>httpRepo := [http3]\<rparr>) (http_ID http3) = Inr (HTTPListener http3) \<and>
   Add tcp_ID (tcpRepo http_service) tcp4 = Inr [tcp4] \<and>
   ids_disjoint (http_service\<lparr>tcpRepo := [tcp4]\<rparr>) \<and>
   Listener (http_service\<lparr>tcpRepo := [tcp4]\<rparr>) (tcp_ID tcp4) = Inr (TCPListener tcp4) \<and>
   ids_disjoint both_service \<and>
   RemoveByID http_ID (httpRepo both_service) (uuid_of 3) = Inr [http5] \<and>
   Listener (both_service\<lparr>httpRepo := [http5]\<rparr>) (uuid_of 3) = Inl (could_not_find (uuid_of 3)) \<and>
   RemoveByID tcp_ID (tcpRepo both_service) (uuid_of 4) = Inr [] \<and>
   Listener (both_service\<lparr>tcpRepo := []\<rparr>) (uuid_of 4) = Inl (could_not_find (uuid_of 4)) \<and>
   listeners_HTTP example_env \<noteq> listeners_TCP example_env \<and>
   Remove example_env both_service (uuid_of 4) = (Inr (), both_service\<lparr>tcpRepo := []\<rparr>) \<and>
   \<not> list_ex (\<lambda>y. http_ID y = uuid_of 9) (httpRepo both_service) \<and>
   \<not> list_ex (\<lambda>y. tcp_ID y = uuid_of 9) (tcpRepo both_service) \<and>
   Listener both_service (uuid_of 9) = Inl (could_not_find (uuid_of 9)) \<and>
   could_not_find (uuid_of 9) =
     Error ''pkg/services/listeners.GetListenerByID(): could not find listener 00000000-0000-0000-0000-000000000009''"
proof -
  have a1: "Add http_ID (httpRepo tcp_service) http3 = Inr [http3]"
    by (simp add: Add_def tcp_service_def)
  have a2: "Add tcp_ID (tcpRepo http_service) tcp4 = Inr [tcp4]"
    by (simp add: Add_def http_service_def)
  have d2: "ids_disjoint (http_service\<lparr>tcpRepo := [tcp4]\<rparr>)"
    by (simp add: ids_disjoint_def http_service_def http3_def tcp4_def uuid_of_def)
  have d: "ids_disjoint both_service"
    by (simp add: ids_disjoint_def both_service_def http3_def http5_def tcp4_def uuid_of_def)
  have r3: "RemoveByID http_ID (httpRepo both_service) (uuid_of 3) = Inr [http5]"
    by (simp add: RemoveByID_def both_service_def http3_def http5_def uuid_of_def)
  have r4: "RemoveByID tcp_ID (tcpRepo both_service) (uuid_of 4) = Inr []"
    by (simp add: RemoveByID_def both_service_def tcp4_def)
  have tags: "listeners_HTTP example_env \<noteq> listeners_TCP example_env"
    by (simp add: example_env_def)
  have rm: "Remove example_env both_service (uuid_of 4) = (Inr (), both_service\<lparr>tcpRepo := []\<rparr>)"
    by (simp add: Remove_def Listener_both_service r4 example_env_def)
  have n9: "\<not> list_ex (\<lambda>y. http_ID y = uuid_of 9) (httpRepo both_service)"
    "\<not> list_ex (\<lambda>y. tcp_ID y = uuid_of 9) (tcpRepo both_service)"
    by (simp_all add: both_service_def http3_def http5_def tcp4_def uuid_of_def)
  have m: "could_not_find (uuid_of 9) =
     Error ''pkg/services/listeners.GetListenerByID(): could not find listener 00000000-0000-0000-0000-000000000009''"
    by (simp add: could_not_find_def uuid_String_9)
  have c1: "Listener (tcp_service\<lparr>httpRepo := [http3]\<rparr>) (http_ID http3) = Inr (HTTPListener http3)"
    using a1 Listener_inverse_of_Add [of tcp_service http3 "[http3]" tcp4 "[]" "uuid_of 9" "[]" "[]" example_env tcp_service]
    by blast
  have c2: "Listener (http_service\<lparr>tcpRepo := [tcp4]\<rparr>) (tcp_ID tcp4) = Inr (TCPListener tcp4)"
    using a2 d2 Listener_inverse_of_Add [of http_service http3 "[]" tcp4 "[tcp4]" "uuid_of 9" "[]" "[]" example_env tcp_service]
    by blast
  have c3: "Listener (both_service\<lparr>httpRepo := [http5]\<rparr>) (uuid_of 3) = Inl (could_not_find (uuid_of 3))"
    using d r3 Listener_inverse_of_Add [of both_service http3 "[]" tcp4 "[]" "uuid_of 3" "[http5]" "[]" example_env tcp_service]
    by blast
  have c4: "Listener (both_service\<lparr>tcpRepo := []\<rparr>) (uuid_of 4) = Inl (could_not_find (uuid_of 4))"
    using d tags rm Listener_inverse_of_Add [of both_service http3 "[]" tcp4 "[]" "uuid_of 4" "[]" "[]" example_env "both_service\<lparr>tcpRepo := []\<rparr>"]
    by blast
  have c5: "Listener both_service (uuid_of 9) = Inl (could_not_find (uuid_of 9))"
    using n9 Listener_inverse_of_Add [of both_service http3 "[]" tcp4 "[]" "uuid_of 9" "[]" "[]" example_env tcp_service]
    by blast
  show ?thesis
    using a1 a2 d2 d r3 r4 tags rm n9 m c1 c2 c3 c4 c5 by blast
qed

text \<open>
  C10. For every protocol value that is neither the HTTP tag nor the TCP tag,
  \<open>ListenersByType\<close> returns the empty list, whatever is stored (the function
  has no error result).
\<close>

theorem ListenersByType_other_tag:
  assumes "protocol \<noteq> listeners_HTTP env" "protocol \<noteq> listeners_TCP env"
  shows "ListenersByType env ls protocol = []"
  using assms by (simp add: ListenersByType_def)

theorem ListenersByType_other_tag_witness:
  "(0::int) \<noteq> listeners_HTTP example_env \<and> 0 \<noteq> listeners_TCP example_env \<and>
   ListenersByType example_env both_service 0 = []"
proof -
  have h: "(0::int) \<noteq> listeners_HTTP example_env" "(0::int) \<noteq> listeners_TCP example_env"
    by (simp_all add: example_env_def)
  show ?thesis using h ListenersByType_other_tag [OF h, of both_service] by simp
qed

subsection \<open>Start, Stop and Restart\<close>

text \<open>
  C6. For every listener with a bound server, \<open>Restart\<close> calls the server's
  \<open>Stop\<close> first. If that fails, \<open>Restart\<close> returns the failure (under the
  prefix of \<open>Restart\<close>) and the trace ends there: no start is attempted. If
  it succeeds, the start is handed to a goroutine next and \<open>Restart\<close> returns
  success.
\<close>

theorem Restart_stops_first:
  assumes "Listener ls i = Inr l" "Server l = Some s"
  shows "take 1 (snd (Restart env ls i)) = [Stop_call s] \<and>
         (case server_Stop env s of
            Inl err \<Rightarrow>
              Restart env ls i =
                (Inl (Errorf ''pkg/services/listeners.Restart(): '' err), [Stop_call s])
          | Inr _ \<Rightarrow> Restart env ls i = (Inr (), [Stop_call s, Go_Start s]))"
  using assms by (simp add: Restart_def split: sum.splits)

theorem Restart_stops_first_witness:
  "Listener both_service (uuid_of 5) = Inr (HTTPListener http5) \<and>
   Server (HTTPListener http5) = Some (uuid_of 2) \<and>
   Restart example_env both_service (uuid_of 5) =
     (Inl (Error ''pkg/services/listeners.Restart(): server refused to stop''),
      [Stop_call (uuid_of 2)]) \<and>
   Listener both_service (uuid_of 3) = Inr (HTTPListener http3) \<and>
   Server (HTTPListener http3) = Some (uuid_of 1) \<and>
   Restart example_env both_service (uuid_of 3) =
     (Inr (), [Stop_call (uuid_of 1), Go_Start (uuid_of 1)])"
proof -
  have s5: "Server (HTTPListener http5) = Some (uuid_of 2)" by (simp add: http5_def)
  have s3: "Server (HTTPListener http3) = Some (uuid_of 1)" by (simp add: http3_def)
  have e5: "server_Stop example_env (uuid_of 2) = Inl (Error ''server refused to stop'')"
    by (simp add: example_env_def)
  have e3: "server_Stop example_env (uuid_of 1) = Inr ()"
    by (simp add: example_env_def uuid_of_def)
  show ?thesis
    using s5 s3 Listener_both_service
      Restart_stops_first [OF Listener_both_service(2) s5, of example_env]
      Restart_stops_first [OF Listener_both_service(1) s3, of example_env]
    by (simp add: e5 e3)
qed

text \<open>
  C1. The specification has \<open>Start\<close>, \<open>Stop\<close> and \<open>Restart\<close> succeed, with no
  effect, on a raw-socket listener. \<open>Start\<close> has a case for the raw-socket protocol and
  returns success without a call to any server. \<open>Stop\<close> and \<open>Restart\<close> have no
  such case: for every identifier that \<open>Listener\<close> resolves to a raw-socket
  listener they dereference its server reference, which is \<^verbatim>\<open>nil\<close>, and panic.
\<close>

theorem Stop_Restart_raw_socket_panic:
  assumes "Listener ls i = Inr (TCPListener l)"
  shows "Stop env ls i = (Inl NilDereference, []) \<and>
         Restart env ls i = (Inl NilDereference, []) \<and>
         (listeners_TCP env \<noteq> listeners_HTTP env \<longrightarrow> Start env ls i = (Inr (), []))"
  using assms by (simp add: Stop_def Restart_def Start_def)

theorem Stop_Restart_raw_socket_panic_witness:
  "NewListener example_env NewListenerService [''Protocol'' \<mapsto> ''tcp''] =
     (Inr (TCPListener tcp4), tcp_service) \<and>
   Listener tcp_service (uuid_of 4) = Inr (TCPListener tcp4) \<and>
   listeners_TCP example_env \<noteq> listeners_HTTP example_env \<and>
   Stop example_env tcp_service (uuid_of 4) = (Inl NilDereference, []) \<and>
   Restart example_env tcp_service (uuid_of 4) = (Inl NilDereference, []) \<and>
   Start example_env tcp_service (uuid_of 4) = (Inr (), [])"
proof -
  have t: "ToLower ''tcp'' = ''tcp''" by code_simp
  have n: "NewListener example_env NewListenerService [''Protocol'' \<mapsto> ''tcp''] =
     (Inr (TCPListener tcp4), tcp_service)"
    by (simp add: NewListener_def NewListener_TCP_def t Add_def example_env_def
        NewListenerService_def tcp_service_def tcp4_def)
  have l: "Listener tcp_service (uuid_of 4) = Inr (TCPListener tcp4)"
    by (simp add: Listener_def ListenerByID_def tcp_service_def tcp4_def)
  have d: "listeners_TCP example_env \<noteq> listeners_HTTP example_env"
    by (simp add: example_env_def)
  show ?thesis
    using n l d Stop_Restart_raw_socket_panic [OF l, of example_env] by simp
qed

text \<open>
  C9. The specification has the error of a failing operation name the
  operation in which the failure arose. When \<open>Listener\<close> finds no listener for the
  identifier, the error that \<open>Stop\<close> returns carries the prefix of \<open>Restart\<close>.
\<close>

theorem Stop_lookup_failure_named_Restart:
  assumes "Listener ls i = Inl err"
  shows "Stop env ls i = (Inl (Errorf ''pkg/services/listeners.Restart(): '' err), [])"
  using assms by (simp add: Stop_def)

theorem Stop_lookup_failure_named_Restart_witness:
  "Listener both_service (uuid_of 9) =
     Inl (Error ''pkg/services/listeners.GetListenerByID(): could not find listener 00000000-0000-0000-0000-000000000009'') \<and>
   Stop example_env both_service (uuid_of 9) =
     (Inl (Error ''pkg/services/listeners.Restart(): pkg/services/listeners.GetListenerByID(): could not find listener 00000000-0000-0000-0000-000000000009''), [])"
proof -
  have l: "Listener both_service (uuid_of 9) =
     Inl (Error (''pkg/services/listeners.GetListenerByID(): could not find listener '' @
       uuid_String (uuid_of 9)))"
    by (simp add: Listener_def ListenerByID_def both_service_def http3_def http5_def tcp4_def
        uuid_of_def)
  show ?thesis
    using l Stop_lookup_failure_named_Restart [OF l, of example_env]
    by (simp add: uuid_String_9)
qed

end
